theory Spec2Isabelle
  imports Complex_Main "HOL-Library.Sublist" "HOL-Library.Word"
begin

unbundle bit_operations_syntax

section \<open>JavaScript values\<close>

text \<open>
  The handler of \<^verbatim>\<open>server.js\<close> receives what the HTTP layer and the body parsers
  produced: header values are strings, a missing header reads as \<^verbatim>\<open>undefined\<close>, and
  \<^verbatim>\<open>request.body\<close> is \<^verbatim>\<open>undefined\<close> or \<^verbatim>\<open>null\<close> when there is no body, an object of
  strings (and arrays of strings) for a form body, and any JSON value for a JSON body.
  Numbers are kept as rationals (every finite double is one); strings are byte lists.
  An object is the list of its own properties in insertion order, keys distinct.
\<close>

datatype jsval =
    JUndefined
  | JNull
  | JBool bool
  | JNum rat
  | JStr string
  | JArr "jsval list"
  | JObj "(string \<times> jsval) list"

datatype js_error = TypeError | SqliteError

text \<open>Truthiness of a number, and unary plus on a boolean (\<^verbatim>\<open>+true\<close> is 1).\<close>

definition truthy_number :: "int \<Rightarrow> bool" where
  "truthy_number n = (n \<noteq> 0)"

definition unary_plus :: "bool \<Rightarrow> rat" where
  "unary_plus b = (if b then 1 else 0)"

text \<open>
  Reading a property \<^verbatim>\<open>v.k\<close>: a TypeError on \<^verbatim>\<open>undefined\<close> and \<^verbatim>\<open>null\<close>, the own
  property of an object (\<^verbatim>\<open>undefined\<close> when absent), and \<^verbatim>\<open>undefined\<close> on the other
  values for the six field names the handler reads (none of them is a property of a
  string, number, boolean or array).
\<close>

fun get_prop :: "jsval \<Rightarrow> string \<Rightarrow> js_error + jsval" where
  "get_prop JUndefined k = Inl TypeError"
| "get_prop JNull k = Inl TypeError"
| "get_prop (JObj kvs) k = Inr (case map_of kvs k of None \<Rightarrow> JUndefined | Some v \<Rightarrow> v)"
| "get_prop v k = Inr JUndefined"

text \<open>
  String conversion inside a template literal. The decimal rendering of a number is the
  runtime's; it is the parameter \<open>ns\<close>.
\<close>

fun join_comma :: "string list \<Rightarrow> string" where
  "join_comma [] = []"
| "join_comma [s] = s"
| "join_comma (s # ss) = s @ '','' @ join_comma ss"

fun ToString :: "(rat \<Rightarrow> string) \<Rightarrow> jsval \<Rightarrow> string" where
  "ToString ns JUndefined = ''undefined''"
| "ToString ns JNull = ''null''"
| "ToString ns (JBool b) = (if b then ''true'' else ''false'')"
| "ToString ns (JNum n) = ns n"
| "ToString ns (JStr s) = s"
| "ToString ns (JArr xs) =
     join_comma (map (\<lambda>x. if x = JUndefined \<or> x = JNull then [] else ToString ns x) xs)"
| "ToString ns (JObj kvs) = ''[object Object]''"

text \<open>
  \<^verbatim>\<open>k.indexOf(pat)\<close>: the index of the first occurrence of \<open>pat\<close> in \<open>k\<close>, or -1.
\<close>

fun indexOf_from :: "string \<Rightarrow> string \<Rightarrow> int \<Rightarrow> int" where
  "indexOf_from [] pat i = (if pat = [] then i else - 1)"
| "indexOf_from (c # cs) pat i =
     (if prefix pat (c # cs) then i else indexOf_from cs pat (i + 1))"

definition indexOf :: "string \<Rightarrow> string \<Rightarrow> int" where
  "indexOf k pat = indexOf_from k pat 0"

section \<open>The request, the configuration and the environment\<close>

record request =
  headers :: "(string \<times> string) list"
  body :: jsval

text \<open>\<^verbatim>\<open>request.headers[name]\<close>\<close>

definition header :: "(string \<times> string) list \<Rightarrow> string \<Rightarrow> jsval" where
  "header hs name = (case map_of hs name of None \<Rightarrow> JUndefined | Some v \<Rightarrow> JStr v)"

text \<open>
  The variables read from \<^verbatim>\<open>process.env\<close> that the handler uses; both are taken as
  set, as a deployment of the server has them.
\<close>

record config =
  TWILIO_AUTH_TOKEN :: string
  WEBHOOK_ENDPOINT :: string

text \<open>
  What a run of the handler takes from outside the request: the clock reading
  \<^verbatim>\<open>new Date() / 1000\<close>, and the salt that \<^verbatim>\<open>argon2.hash\<close> draws from the random source,
  because the call of the handler passes none.
\<close>

record environment =
  now :: rat
  salt :: "8 word list"

section \<open>The identity hash\<close>

text \<open>
  \<^verbatim>\<open>argon2.hash(plain, {type: 2, hashLength: 384})\<close> returns the encoded hash: a string
  that carries the options, the salt and the digest. It is kept symbolic, in the way the
  protocol theories keep a hash: the value records what was hashed, under which options
  and which salt, and two encoded hashes are equal exactly when these agree (the digest
  has no collisions).
\<close>

record argon2_options =
  type :: nat
  hashLength :: nat

datatype argon2_encoded = Argon2Encoded argon2_options "8 word list" string

definition argon2_hash :: "8 word list \<Rightarrow> string \<Rightarrow> argon2_options \<Rightarrow> argon2_encoded" where
  "argon2_hash s plain opts = Argon2Encoded opts s plain"

text \<open>The template literal of line 135: the three values joined by \<^verbatim>\<open>###\<close>.\<close>

definition preimage :: "string \<Rightarrow> string \<Rightarrow> string \<Rightarrow> string" where
  "preimage signature token sid = signature @ ''###'' @ token @ ''###'' @ sid"

text \<open>Lines 134 to 140: the identity hash of a signature, a token and a message id.\<close>

definition derive :: "8 word list \<Rightarrow> string \<Rightarrow> string \<Rightarrow> string \<Rightarrow> argon2_encoded" where
  "derive s signature token sid =
     argon2_hash s (preimage signature token sid) \<lparr>type = 2, hashLength = 384\<rparr>"

section \<open>The request context\<close>

text \<open>The object \<^verbatim>\<open>t\<close> of the handler, once its seven properties are assigned.\<close>

record twilio_object =
  receivedOn :: rat
  TwilioSignature :: jsval
  TwilioIdempotencyToken :: jsval
  requestBody :: jsval
  webhookEndpoint :: string
  isAuthenticTwilioResponse :: bool
  requestUID :: argon2_encoded

text \<open>
  The functions of the libraries and of the runtime that the handler calls and whose
  code is not the repository's: the provider's \<^verbatim>\<open>Twilio.validateRequest\<close> (auth token,
  claimed signature, URL, parameters), the decimal rendering of a number, and
  \<^verbatim>\<open>JSON.stringify\<close> on the request context. Each is taken to return for every
  argument: the validation answers with a verdict and never throws, the hash is computed
  (the salt apart, it is a function of its arguments), and a request context, which has
  no cycle, has a serialisation.
\<close>

record library =
  validateRequest :: "string \<Rightarrow> jsval \<Rightarrow> string \<Rightarrow> jsval \<Rightarrow> bool"
  Number_toString :: "rat \<Rightarrow> string"
  JSON_stringify :: "twilio_object \<Rightarrow> string"

section \<open>The database\<close>

text \<open>
  The two tables of lines 25 to 50, each the list of its rows in insertion order. Neither
  has a primary key or a uniqueness constraint; every column is \<^verbatim>\<open>NOT NULL\<close>. A column
  holds the value that was bound to it, a number or a string (the engine keeps a number
  that is bound to a \<^verbatim>\<open>TEXT\<close> column as its text); the hash column of
  \<^verbatim>\<open>sms\<close> holds the encoded hash. The column \<^verbatim>\<open>body\<close> of \<^verbatim>\<open>sms\<close> is \<open>sms_body\<close> here,
  \<open>body\<close> being the body of the request.
\<close>

record twilio_messages_row =
  recevied_on :: jsval
  twilio_signature :: jsval
  twilio_idempotency_token :: jsval
  twilio_sms_message_sid :: jsval
  twilio_account_sid :: jsval
  twilio_api_version :: jsval
  webhook_endpoint :: jsval
  is_authentic_request :: jsval
  raw_request :: jsval

record sms_row =
  hash_id :: argon2_encoded
  sender :: jsval
  receiver :: jsval
  sms_body :: jsval
  received_on :: jsval

record database =
  twilio_messages :: "twilio_messages_row list"
  sms :: "sms_row list"

text \<open>
  Binding the values of a statement's parameters, as the driver does: a number and a
  string are bound, \<^verbatim>\<open>null\<close> and \<^verbatim>\<open>undefined\<close> are bound as NULL, and any other value
  (a boolean, an array, an object) raises a TypeError before the statement runs. The
  statement then fails on a NULL with the error of the database, since every column is
  \<^verbatim>\<open>NOT NULL\<close>.
\<close>

fun bindable :: "jsval \<Rightarrow> bool" where
  "bindable (JNum n) = True"
| "bindable (JStr s) = True"
| "bindable JNull = True"
| "bindable JUndefined = True"
| "bindable v = False"

definition run_checks :: "jsval list \<Rightarrow> js_error option" where
  "run_checks vs =
     (if \<not> list_all bindable vs then Some TypeError
      else if list_ex (\<lambda>v. v = JNull \<or> v = JUndefined) vs then Some SqliteError
      else None)"

text \<open>Lines 53 to 67: the insert into \<^verbatim>\<open>twilio_messages\<close>, its nine parameters in order.\<close>

definition twilioRequestInsertStatement_run ::
  "jsval \<Rightarrow> jsval \<Rightarrow> jsval \<Rightarrow> jsval \<Rightarrow> jsval \<Rightarrow> jsval \<Rightarrow> jsval \<Rightarrow> jsval \<Rightarrow> jsval \<Rightarrow>
   database \<Rightarrow> js_error + database" where
  "twilioRequestInsertStatement_run p_received_on p_signature p_idempotency_token
       p_sms_message_sid p_account_sid p_api_version p_webhook_endpoint
       p_is_authentic_request p_raw_request d =
     (case run_checks [p_received_on, p_signature, p_idempotency_token, p_sms_message_sid,
                       p_account_sid, p_api_version, p_webhook_endpoint,
                       p_is_authentic_request, p_raw_request] of
        Some e \<Rightarrow> Inl e
      | None \<Rightarrow>
          Inr (d\<lparr>twilio_messages := twilio_messages d @
                 [\<lparr>recevied_on = p_received_on,
                   twilio_signature = p_signature,
                   twilio_idempotency_token = p_idempotency_token,
                   twilio_sms_message_sid = p_sms_message_sid,
                   twilio_account_sid = p_account_sid,
                   twilio_api_version = p_api_version,
                   webhook_endpoint = p_webhook_endpoint,
                   is_authentic_request = p_is_authentic_request,
                   raw_request = p_raw_request\<rparr>]\<rparr>))"

text \<open>
  Lines 68 to 78: the insert into \<^verbatim>\<open>sms\<close>. The first parameter is the encoded hash, a
  string, which always binds.
\<close>

definition smsInsertStatement_run ::
  "argon2_encoded \<Rightarrow> jsval \<Rightarrow> jsval \<Rightarrow> jsval \<Rightarrow> jsval \<Rightarrow> database \<Rightarrow> js_error + database" where
  "smsInsertStatement_run p_requestUID p_sender p_receiver p_body p_received_on d =
     (case run_checks [p_sender, p_receiver, p_body, p_received_on] of
        Some e \<Rightarrow> Inl e
      | None \<Rightarrow>
          Inr (d\<lparr>sms := sms d @
                 [\<lparr>hash_id = p_requestUID,
                   sender = p_sender,
                   receiver = p_receiver,
                   sms_body = p_body,
                   received_on = p_received_on\<rparr>]\<rparr>))"

text \<open>
  \<^verbatim>\<open>db.transaction(f)\<close>: the function that runs \<open>f\<close> between BEGIN and COMMIT, and that
  rolls back and throws the error again when \<open>f\<close> throws.
\<close>

definition transaction ::
  "('a \<Rightarrow> database \<Rightarrow> (js_error + unit) \<times> database) \<Rightarrow>
   'a \<Rightarrow> database \<Rightarrow> (js_error + unit) \<times> database" where
  "transaction f x d =
     (case f x d of
        (Inl e, d') \<Rightarrow> (Inl e, d)
      | (Inr u, d') \<Rightarrow> (Inr u, d'))"

text \<open>
  Lines 79 to 98, the function given to \<^verbatim>\<open>db.transaction\<close>: the two runs in order. An
  error leaves the database as the runs before it made it; a read of
  \<^verbatim>\<open>t.requestBody.X\<close> throws when the body is \<^verbatim>\<open>undefined\<close> or \<^verbatim>\<open>null\<close>.
\<close>

definition field :: "jsval \<Rightarrow> string \<Rightarrow> jsval" where
  "field b k = (case get_prop b k of Inl e \<Rightarrow> JUndefined | Inr v \<Rightarrow> v)"

definition insertSMS_body ::
  "library \<Rightarrow> twilio_object \<Rightarrow> database \<Rightarrow> (js_error + unit) \<times> database" where
  "insertSMS_body lib t d =
     (case get_prop (requestBody t) ''SmsMessageSid'' of
        Inl e \<Rightarrow> (Inl e, d)
      | Inr sid \<Rightarrow>
         (case twilioRequestInsertStatement_run
                 (JNum (receivedOn t))
                 (TwilioSignature t)
                 (TwilioIdempotencyToken t)
                 sid
                 (field (requestBody t) ''AccountSid'')
                 (field (requestBody t) ''ApiVersion'')
                 (JStr (webhookEndpoint t))
                 (JNum (unary_plus (isAuthenticTwilioResponse t)))
                 (JStr (JSON_stringify lib t))
                 d of
            Inl e \<Rightarrow> (Inl e, d)
          | Inr d1 \<Rightarrow>
             (case smsInsertStatement_run
                     (requestUID t)
                     (field (requestBody t) ''From'')
                     (field (requestBody t) ''To'')
                     (field (requestBody t) ''Body'')
                     (JNum (receivedOn t))
                     d1 of
                Inl e \<Rightarrow> (Inl e, d1)
              | Inr d2 \<Rightarrow> (Inr (), d2))))"

definition insertSMS ::
  "library \<Rightarrow> twilio_object \<Rightarrow> database \<Rightarrow> (js_error + unit) \<times> database" where
  "insertSMS lib = transaction (insertSMS_body lib)"

section \<open>The handler\<close>

text \<open>
  The reply of the HTTP layer starts with no content type and status 200;
  \<^verbatim>\<open>reply.type\<close> and \<^verbatim>\<open>reply.code\<close> set the two. The handler returns a string, which
  the layer sends as it is, or an object, which the layer sends as JSON; when the
  handler throws, the layer answers for it.
\<close>

record reply =
  content_type :: "string option"
  statusCode :: nat

definition new_reply :: reply where
  "new_reply = \<lparr>content_type = None, statusCode = 200\<rparr>"

definition reply_type :: "string \<Rightarrow> reply \<Rightarrow> reply" where
  "reply_type ct r = r\<lparr>content_type := Some ct\<rparr>"

definition reply_code :: "nat \<Rightarrow> reply \<Rightarrow> reply" where
  "reply_code c r = r\<lparr>statusCode := c\<rparr>"

datatype outcome = Replied reply jsval | Threw js_error

text \<open>Lines 112 to 114: is some header key one with \<^verbatim>\<open>twilio\<close> in it?\<close>

definition is_twilio_request :: "(string \<times> string) list \<Rightarrow> bool" where
  "is_twilio_request hs =
     list_ex (\<lambda>k. truthy_number (NOT (indexOf k ''twilio''))) (map fst hs)"

text \<open>
  Lines 116 to 140: the object \<^verbatim>\<open>t\<close>. Its verdict is the validation's answer for the
  auth token, the claimed signature, the configured URL and the body; its identity hash
  is taken from the two header values and the message id of the body, each converted
  to a string by the template literal. The handler builds it only once the read of the
  message id has not thrown, that is for a body other than \<^verbatim>\<open>undefined\<close> and \<^verbatim>\<open>null\<close>.
\<close>

definition request_context ::
  "library \<Rightarrow> config \<Rightarrow> environment \<Rightarrow> request \<Rightarrow> twilio_object" where
  "request_context lib cfg env req =
     \<lparr>receivedOn = now env,
      TwilioSignature = header (headers req) ''x-twilio-signature'',
      TwilioIdempotencyToken = header (headers req) ''i-twilio-idempotency-token'',
      requestBody = body req,
      webhookEndpoint = WEBHOOK_ENDPOINT cfg,
      isAuthenticTwilioResponse =
        validateRequest lib (TWILIO_AUTH_TOKEN cfg)
          (header (headers req) ''x-twilio-signature'') (WEBHOOK_ENDPOINT cfg) (body req),
      requestUID =
        derive (salt env)
          (ToString (Number_toString lib) (header (headers req) ''x-twilio-signature''))
          (ToString (Number_toString lib) (header (headers req) ''i-twilio-idempotency-token''))
          (ToString (Number_toString lib) (field (body req) ''SmsMessageSid''))\<rparr>"

text \<open>
  Lines 107 to 165. The line written to the console is left out. Where the body is
  \<^verbatim>\<open>undefined\<close> or \<^verbatim>\<open>null\<close> the read of \<^verbatim>\<open>t.requestBody.SmsMessageSid\<close> in the template
  literal throws, if the validation has not thrown before it: a TypeError in both cases,
  before any write.
\<close>

definition handler ::
  "library \<Rightarrow> config \<Rightarrow> environment \<Rightarrow> request \<Rightarrow> database \<Rightarrow> outcome \<times> database" where
  "handler lib cfg env req d =
     (let r = reply_type ''application/json'' new_reply in
      if is_twilio_request (headers req) then
        (case get_prop (body req) ''SmsMessageSid'' of
           Inl e \<Rightarrow> (Threw e, d)
         | Inr sid \<Rightarrow>
            (let t = request_context lib cfg env req
             in case insertSMS lib t d of
                  (Inl e, d') \<Rightarrow> (Threw e, d')
                | (Inr u, d') \<Rightarrow>
                    (if isAuthenticTwilioResponse t
                     then (Replied (reply_code 200 (reply_type ''text/html'' r))
                             (JStr ''<Response></Response>''), d')
                     else (Replied (reply_code 400 r)
                             (JObj [(''error'', JStr ''Invalid Twilio request found.'')]),
                           d'))))
      else (Replied r (JObj [(''error'', JStr ''Not Authenticated.'')]), d))"

section \<open>Notions used to state the properties\<close>

text \<open>A value that a \<^verbatim>\<open>NOT NULL\<close> column takes: a number or a string.\<close>

fun storable :: "jsval \<Rightarrow> bool" where
  "storable (JNum n) = True"
| "storable (JStr s) = True"
| "storable v = False"

text \<open>
  The eight values of a request context that come from the request and are bound to
  columns: the two header values and the six fields of the body.
\<close>

definition stored_values :: "twilio_object \<Rightarrow> jsval list" where
  "stored_values t =
     [TwilioSignature t, TwilioIdempotencyToken t,
      field (requestBody t) ''SmsMessageSid'', field (requestBody t) ''AccountSid'',
      field (requestBody t) ''ApiVersion'', field (requestBody t) ''From'',
      field (requestBody t) ''To'', field (requestBody t) ''Body'']"

definition request_values :: "request \<Rightarrow> jsval list" where
  "request_values req =
     [header (headers req) ''x-twilio-signature'',
      header (headers req) ''i-twilio-idempotency-token'',
      field (body req) ''SmsMessageSid'', field (body req) ''AccountSid'',
      field (body req) ''ApiVersion'', field (body req) ''From'',
      field (body req) ''To'', field (body req) ''Body'']"

text \<open>The two rows that a request context is written as.\<close>

definition audit_row :: "library \<Rightarrow> twilio_object \<Rightarrow> twilio_messages_row" where
  "audit_row lib t =
     \<lparr>recevied_on = JNum (receivedOn t),
      twilio_signature = TwilioSignature t,
      twilio_idempotency_token = TwilioIdempotencyToken t,
      twilio_sms_message_sid = field (requestBody t) ''SmsMessageSid'',
      twilio_account_sid = field (requestBody t) ''AccountSid'',
      twilio_api_version = field (requestBody t) ''ApiVersion'',
      webhook_endpoint = JStr (webhookEndpoint t),
      is_authentic_request = JNum (unary_plus (isAuthenticTwilioResponse t)),
      raw_request = JStr (JSON_stringify lib t)\<rparr>"

definition message_row :: "twilio_object \<Rightarrow> sms_row" where
  "message_row t =
     \<lparr>hash_id = requestUID t,
      sender = field (requestBody t) ''From'',
      receiver = field (requestBody t) ''To'',
      sms_body = field (requestBody t) ''Body'',
      received_on = JNum (receivedOn t)\<rparr>"

definition written :: "library \<Rightarrow> twilio_object \<Rightarrow> database \<Rightarrow> database" where
  "written lib t d =
     d\<lparr>twilio_messages := twilio_messages d @ [audit_row lib t],
       sms := sms d @ [message_row t]\<rparr>"


text \<open>
  The validation of the provider's library. The signature is recomputed from the auth
  token, the URL and the parameters (a keyed hash of the URL followed by the sorted
  parameters, in base 64: the parameter \<open>expected\<close>), once for each form of the URL
  that the library tries (the URL with its port and without it: the parameter
  \<open>forms\<close>), and the claimed signature is accepted when it is one of these; a missing
  header counts as the empty string.
\<close>

definition provider_validateRequest ::
  "(string \<Rightarrow> string \<Rightarrow> jsval \<Rightarrow> string) \<Rightarrow> (string \<Rightarrow> string list) \<Rightarrow>
   string \<Rightarrow> jsval \<Rightarrow> string \<Rightarrow> jsval \<Rightarrow> bool" where
  "provider_validateRequest expected forms authToken twilioHeader url params =
     ((case twilioHeader of JStr s \<Rightarrow> s | _ \<Rightarrow> [])
        \<in> set (map (\<lambda>u. expected authToken u params) (forms url)))"

text \<open>
  A match that ignores case, in the words of the specification: the fragment occurs in
  the key once both are in lower case.
\<close>

definition lower_char :: "char \<Rightarrow> char" where
  "lower_char c =
     (case map_of (zip ''ABCDEFGHIJKLMNOPQRSTUVWXYZ'' ''abcdefghijklmnopqrstuvwxyz'') c of
        None \<Rightarrow> c
      | Some l \<Rightarrow> l)"

definition contains_ignoring_case :: "string \<Rightarrow> string \<Rightarrow> bool" where
  "contains_ignoring_case frag k = sublist (map lower_char frag) (map lower_char k)"

section \<open>Values of the worked examples\<close>

text \<open>
  The signatures of the provider's scheme (HMAC-SHA1 under the auth token, in base 64)
  for the requests of the examples, listed here and not computed: the auth token is
  \<^verbatim>\<open>12345\<close>, the URL \<^verbatim>\<open>https://example.org/sms\<close> without and with its port 443, and the
  body the one of the example, with its six fields or without the field \<^verbatim>\<open>Body\<close>.
\<close>

definition example_body :: jsval where
  "example_body =
     JObj [(''SmsMessageSid'', JStr ''SM123''), (''AccountSid'', JStr ''AC1''),
           (''ApiVersion'', JStr ''2010-04-01''), (''From'', JStr ''+15551234567''),
           (''To'', JStr ''+15557654321''), (''Body'', JStr ''hi'')]"

definition example_body_without_Body :: jsval where
  "example_body_without_Body =
     JObj [(''SmsMessageSid'', JStr ''SM123''), (''AccountSid'', JStr ''AC1''),
           (''ApiVersion'', JStr ''2010-04-01''), (''From'', JStr ''+15551234567''),
           (''To'', JStr ''+15557654321'')]"

definition example_expected :: "string \<Rightarrow> string \<Rightarrow> jsval \<Rightarrow> string" where
  "example_expected authToken url params =
     (if authToken = ''12345'' \<and> params = example_body then
        (if url = ''https://example.org/sms'' then ''U9rrr30/EZxI1IMkEHAl+ruEhTk=''
         else if url = ''https://example.org:443/sms'' then ''qlCrBWw9DvGkJ9FrSMYqY8qpFrY=''
         else ''no signature listed'')
      else if authToken = ''12345'' \<and> params = example_body_without_Body then
        (if url = ''https://example.org/sms'' then ''Eqm87rynKh3dF8p83uy7N7MzVBQ=''
         else if url = ''https://example.org:443/sms'' then ''5ONf6GNGCLGZex7bo/zckZXom1s=''
         else ''no signature listed'')
      else ''no signature listed'')"

definition example_forms :: "string \<Rightarrow> string list" where
  "example_forms url =
     (if url = ''https://example.org/sms''
      then [''https://example.org/sms'', ''https://example.org:443/sms'']
      else [url])"

definition example_library :: library where
  "example_library =
     \<lparr>validateRequest = provider_validateRequest example_expected example_forms,
      Number_toString = (\<lambda>n. ''0''),
      JSON_stringify = (\<lambda>t. ''{}'')\<rparr>"

definition example_config :: config where
  "example_config =
     \<lparr>TWILIO_AUTH_TOKEN = ''12345'', WEBHOOK_ENDPOINT = ''https://example.org/sms''\<rparr>"

definition first_salt :: "8 word list" where
  "first_salt = [0x3a, 0x91, 0x07, 0xc4, 0x5e, 0xd2, 0x18, 0x6b,
                 0xf0, 0x2d, 0x83, 0x4c, 0xa7, 0x19, 0xee, 0x50]"

definition second_salt :: "8 word list" where
  "second_salt = [0x7f, 0x04, 0xb8, 0x21, 0x9d, 0x66, 0xc3, 0x0a,
                  0x35, 0xe9, 0x12, 0xd7, 0x48, 0xbc, 0x5f, 0x93]"

definition example_environment :: "8 word list \<Rightarrow> environment" where
  "example_environment s = \<lparr>now = 1700000000, salt = s\<rparr>"

definition example_request :: "string \<Rightarrow> request" where
  "example_request signature =
     \<lparr>headers = [(''content-type'', ''application/x-www-form-urlencoded''),
                 (''x-twilio-signature'', signature),
                 (''i-twilio-idempotency-token'', ''6a1f'')],
      body = example_body\<rparr>"

definition empty_database :: database where
  "empty_database = \<lparr>twilio_messages = [], sms = []\<rparr>"

definition example_context :: "jsval \<Rightarrow> twilio_object" where
  "example_context b =
     request_context example_library example_config (example_environment first_salt)
       \<lparr>headers = headers (example_request ''abc''), body = b\<rparr>"

section \<open>Auxiliary facts\<close>

lemma storable_iff: "storable v \<longleftrightarrow> bindable v \<and> v \<noteq> JNull \<and> v \<noteq> JUndefined"
  by (cases v) auto

lemma run_checks_None: "run_checks vs = None \<longleftrightarrow> list_all storable vs"
  by (induction vs) (auto simp: run_checks_def storable_iff list_all_iff list_ex_iff)

lemma run_checks_Some: "\<not> list_all storable vs \<Longrightarrow> \<exists>e. run_checks vs = Some e"
  using run_checks_None [of vs] by (cases "run_checks vs") auto

lemma indexOf_from_sublist: "0 \<le> i \<Longrightarrow> indexOf_from k pat i \<noteq> - 1 \<longleftrightarrow> sublist pat k"
proof (induction k pat i rule: indexOf_from.induct)
  case (1 pat i)
  then show ?case by auto
next
  case (2 c cs pat i)
  then show ?case by (auto simp: sublist_Cons_right)
qed

lemma truthy_indexOf: "truthy_number (NOT (indexOf k pat)) \<longleftrightarrow> sublist pat k"
proof -
  have "NOT (indexOf k pat) \<noteq> 0 \<longleftrightarrow> indexOf k pat \<noteq> - 1"
    by (simp add: not_int_def)
  then show ?thesis
    using indexOf_from_sublist [of 0 k pat] by (simp add: truthy_number_def indexOf_def)
qed

lemma is_twilio_request_iff:
  "is_twilio_request hs \<longleftrightarrow> (\<exists>k \<in> set (map fst hs). sublist ''twilio'' k)"
  by (simp add: is_twilio_request_def list_ex_iff truthy_indexOf)

lemma header_storable_key: "storable (header hs name) \<Longrightarrow> name \<in> set (map fst hs)"
  by (auto simp: header_def split: option.splits dest: map_of_SomeD intro: rev_image_eqI)

lemma signature_is_twilio:
  assumes "storable (header hs ''x-twilio-signature'')"
  shows "is_twilio_request hs"
proof -
  have "sublist ''twilio'' (''x-'' @ ''twilio'' @ ''-signature'')"
    by (rule sublist_appendI)
  then have "sublist ''twilio'' ''x-twilio-signature''" by simp
  with header_storable_key [OF assms] show ?thesis
    unfolding is_twilio_request_iff by blast
qed

lemma get_prop_field: "get_prop b k = Inr v \<Longrightarrow> field b k = v"
  by (simp add: field_def)

lemma get_prop_Inl: "get_prop b k = Inl e \<Longrightarrow> e = TypeError \<and> field b k' = JUndefined"
  by (cases b) (auto simp: field_def)

lemma get_prop_storable: "storable (field b k) \<Longrightarrow> \<exists>v. get_prop b k' = Inr v"
  by (cases b) (auto simp: field_def)

lemma insertSMS_body_ok:
  assumes "list_all storable (stored_values t)"
  shows "insertSMS_body lib t d = (Inr (), written lib t d)"
proof -
  from assms have "storable (field (requestBody t) ''SmsMessageSid'')"
    by (simp add: stored_values_def)
  then obtain sid where sid: "get_prop (requestBody t) ''SmsMessageSid'' = Inr sid"
    using get_prop_storable by blast
  have f: "field (requestBody t) ''SmsMessageSid'' = sid"
    using sid by (rule get_prop_field)
  have c1: "run_checks [JNum (receivedOn t), TwilioSignature t, TwilioIdempotencyToken t, sid,
      field (requestBody t) ''AccountSid'', field (requestBody t) ''ApiVersion'',
      JStr (webhookEndpoint t), JNum (unary_plus (isAuthenticTwilioResponse t)),
      JStr (JSON_stringify lib t)] = None"
    using assms by (simp add: run_checks_None stored_values_def f)
  have c2: "run_checks [field (requestBody t) ''From'', field (requestBody t) ''To'',
      field (requestBody t) ''Body'', JNum (receivedOn t)] = None"
    using assms by (simp add: run_checks_None stored_values_def)
  show ?thesis
    using sid c1 c2
    by (simp add: insertSMS_body_def twilioRequestInsertStatement_run_def
        smsInsertStatement_run_def audit_row_def message_row_def written_def f)
qed

lemma insertSMS_body_second_fails:
  assumes "list_all storable (take 5 (stored_values t))"
    and "\<not> list_all storable (stored_values t)"
  shows "\<exists>e. insertSMS_body lib t d =
           (Inl e, d\<lparr>twilio_messages := twilio_messages d @ [audit_row lib t]\<rparr>)"
proof -
  from assms(1) have "storable (field (requestBody t) ''SmsMessageSid'')"
    by (simp add: stored_values_def)
  then obtain sid where sid: "get_prop (requestBody t) ''SmsMessageSid'' = Inr sid"
    using get_prop_storable by blast
  have f: "field (requestBody t) ''SmsMessageSid'' = sid"
    using sid by (rule get_prop_field)
  have c1: "run_checks [JNum (receivedOn t), TwilioSignature t, TwilioIdempotencyToken t, sid,
      field (requestBody t) ''AccountSid'', field (requestBody t) ''ApiVersion'',
      JStr (webhookEndpoint t), JNum (unary_plus (isAuthenticTwilioResponse t)),
      JStr (JSON_stringify lib t)] = None"
    using assms(1) by (simp add: run_checks_None stored_values_def f)
  have "\<not> list_all storable [field (requestBody t) ''From'', field (requestBody t) ''To'',
      field (requestBody t) ''Body'', JNum (receivedOn t)]"
    using assms by (simp add: stored_values_def)
  then obtain e where c2: "run_checks [field (requestBody t) ''From'', field (requestBody t) ''To'',
      field (requestBody t) ''Body'', JNum (receivedOn t)] = Some e"
    using run_checks_Some by blast
  show ?thesis
    using sid c1 c2
    by (simp add: insertSMS_body_def twilioRequestInsertStatement_run_def
        smsInsertStatement_run_def audit_row_def f)
qed

lemma insertSMS_body_fails:
  assumes "\<not> list_all storable (stored_values t)"
  shows "\<exists>e d'. insertSMS_body lib t d = (Inl e, d')"
proof (cases "get_prop (requestBody t) ''SmsMessageSid''")
  case (Inl e)
  then show ?thesis by (simp add: insertSMS_body_def)
next
  case (Inr sid)
  have f: "field (requestBody t) ''SmsMessageSid'' = sid"
    using Inr by (rule get_prop_field)
  show ?thesis
  proof (cases "list_all storable (take 5 (stored_values t))")
    case True
    from insertSMS_body_second_fails [OF True assms] show ?thesis by blast
  next
    case False
    then have "\<not> list_all storable [JNum (receivedOn t), TwilioSignature t,
        TwilioIdempotencyToken t, sid,
        field (requestBody t) ''AccountSid'', field (requestBody t) ''ApiVersion'',
        JStr (webhookEndpoint t), JNum (unary_plus (isAuthenticTwilioResponse t)),
        JStr (JSON_stringify lib t)]"
      by (simp add: stored_values_def f)
    then obtain e where "run_checks [JNum (receivedOn t), TwilioSignature t,
        TwilioIdempotencyToken t, sid,
        field (requestBody t) ''AccountSid'', field (requestBody t) ''ApiVersion'',
        JStr (webhookEndpoint t), JNum (unary_plus (isAuthenticTwilioResponse t)),
        JStr (JSON_stringify lib t)] = Some e"
      using run_checks_Some by blast
    then show ?thesis using Inr
      by (simp add: insertSMS_body_def twilioRequestInsertStatement_run_def)
  qed
qed

lemma transaction_rolls_back: "f x d = (Inl e, d1) \<Longrightarrow> transaction f x d = (Inl e, d)"
  by (simp add: transaction_def)

lemma transaction_commits: "f x d = (Inr u, d1) \<Longrightarrow> transaction f x d = (Inr u, d1)"
  by (simp add: transaction_def)

lemma insertSMS_ok:
  "list_all storable (stored_values t) \<Longrightarrow> insertSMS lib t d = (Inr (), written lib t d)"
  unfolding insertSMS_def by (rule transaction_commits) (rule insertSMS_body_ok)

lemma insertSMS_fails:
  assumes "\<not> list_all storable (stored_values t)"
  shows "\<exists>e. insertSMS lib t d = (Inl e, d)"
proof -
  from insertSMS_body_fails [OF assms] obtain e d1
    where "insertSMS_body lib t d = (Inl e, d1)" by blast
  then have "insertSMS lib t d = (Inl e, d)"
    unfolding insertSMS_def by (rule transaction_rolls_back)
  then show ?thesis by blast
qed

lemma stored_values_context:
  "stored_values (request_context lib cfg env req) = request_values req"
  by (simp add: stored_values_def request_values_def request_context_def)

lemma handler_no_header:
  "\<not> is_twilio_request (headers req) \<Longrightarrow>
   handler lib cfg env req d =
     (Replied (reply_type ''application/json'' new_reply)
        (JObj [(''error'', JStr ''Not Authenticated.'')]), d)"
  by (simp add: handler_def)

lemma handler_complete:
  assumes "list_all storable (request_values req)"
  shows "handler lib cfg env req d =
     (if isAuthenticTwilioResponse (request_context lib cfg env req)
      then Replied \<lparr>content_type = Some ''text/html'', statusCode = 200\<rparr>
             (JStr ''<Response></Response>'')
      else Replied \<lparr>content_type = Some ''application/json'', statusCode = 400\<rparr>
             (JObj [(''error'', JStr ''Invalid Twilio request found.'')]),
      written lib (request_context lib cfg env req) d)"
proof -
  from assms have s: "storable (header (headers req) ''x-twilio-signature'')"
    and m: "storable (field (body req) ''SmsMessageSid'')"
    by (simp_all add: request_values_def)
  from s have tw: "is_twilio_request (headers req)" by (rule signature_is_twilio)
  from m obtain sid where sid: "get_prop (body req) ''SmsMessageSid'' = Inr sid"
    using get_prop_storable by blast
  have "insertSMS lib (request_context lib cfg env req) d =
      (Inr (), written lib (request_context lib cfg env req) d)"
    using assms by (intro insertSMS_ok) (simp add: stored_values_context)
  then show ?thesis
    using tw sid by (simp add: handler_def Let_def reply_type_def reply_code_def new_reply_def)
qed

lemma handler_incomplete:
  assumes "is_twilio_request (headers req)"
    and "\<not> list_all storable (request_values req)"
  shows "\<exists>e. handler lib cfg env req d = (Threw e, d)"
proof (cases "get_prop (body req) ''SmsMessageSid''")
  case (Inl e)
  then show ?thesis using assms(1) by (simp add: handler_def)
next
  case (Inr sid)
  from assms(2) obtain e where "insertSMS lib (request_context lib cfg env req) d = (Inl e, d)"
    using insertSMS_fails [of "request_context lib cfg env req" lib d]
    by (auto simp: stored_values_context)
  then show ?thesis using assms(1) Inr by (simp add: handler_def Let_def)
qed

lemma hash_of_complete:
  assumes "list_all storable (request_values req)"
  shows "hash_id (last (sms (snd (handler lib cfg env req d)))) =
         requestUID (request_context lib cfg env req)"
  by (simp add: handler_complete [OF assms] written_def message_row_def)


lemma example_verdict:
  "validateRequest example_library (TWILIO_AUTH_TOKEN example_config)
     (header (headers (example_request s)) ''x-twilio-signature'')
     (WEBHOOK_ENDPOINT example_config) (body (example_request s))
   \<longleftrightarrow> s = ''U9rrr30/EZxI1IMkEHAl+ruEhTk='' \<or> s = ''qlCrBWw9DvGkJ9FrSMYqY8qpFrY=''"
  by (simp add: example_library_def provider_validateRequest_def example_expected_def
      example_forms_def example_config_def example_request_def header_def)

lemma example_request_values:
  "list_all storable (request_values (example_request s))"
  by (simp add: request_values_def example_request_def example_body_def header_def field_def)

lemma example_is_twilio: "is_twilio_request (headers (example_request s))"
  using example_request_values [of s]
  by (intro signature_is_twilio) (simp add: request_values_def)

lemma salts_differ: "first_salt \<noteq> second_salt"
  by (simp add: first_salt_def second_salt_def)





lemma takeWhile_stop: "c \<notin> set a \<Longrightarrow> takeWhile (\<lambda>ch. ch \<noteq> c) (a @ c # x) = a"
  by (induction a) auto

lemma split_at_hash:
  assumes "CHR ''#'' \<notin> set a" and "CHR ''#'' \<notin> set b"
    and "a @ CHR ''#'' # x = b @ CHR ''#'' # y"
  shows "a = b \<and> x = y"
proof -
  have "takeWhile (\<lambda>ch. ch \<noteq> CHR ''#'') (a @ CHR ''#'' # x) = a"
    using assms(1) by (rule takeWhile_stop)
  moreover have "takeWhile (\<lambda>ch. ch \<noteq> CHR ''#'') (b @ CHR ''#'' # y) = b"
    using assms(2) by (rule takeWhile_stop)
  ultimately have "a = b" using assms(3) by simp
  with assms(3) show ?thesis by simp
qed

lemma insertSMS_outcome_independent:
  "fst (insertSMS lib t d) = fst (insertSMS lib t d')"
proof (cases "list_all storable (stored_values t)")
  case True
  then show ?thesis by (simp add: insertSMS_ok)
next
  case False
  show ?thesis
    by (simp add: insertSMS_def transaction_def insertSMS_body_def
        twilioRequestInsertStatement_run_def smsInsertStatement_run_def
        split: sum.splits option.splits prod.splits)
qed

lemma handler_outcome_independent:
  "fst (handler lib cfg env req d) = fst (handler lib cfg env req d')"
proof (cases "is_twilio_request (headers req)")
  case False
  then show ?thesis by (simp add: handler_no_header)
next
  case tw: True
  show ?thesis
  proof (cases "get_prop (body req) ''SmsMessageSid''")
    case (Inl e)
    then show ?thesis using tw by (simp add: handler_def)
  next
    case (Inr sid)
    obtain x1 e1 where 1: "insertSMS lib (request_context lib cfg env req) d = (x1, e1)"
      by (cases "insertSMS lib (request_context lib cfg env req) d")
    obtain x2 e2 where 2: "insertSMS lib (request_context lib cfg env req) d' = (x2, e2)"
      by (cases "insertSMS lib (request_context lib cfg env req) d'")
    from 1 2 insertSMS_outcome_independent [of lib "request_context lib cfg env req" d d']
    have "x1 = x2" by simp
    with 1 2 tw Inr show ?thesis
      by (simp add: handler_def Let_def split: sum.splits)
  qed
qed

lemma lower_twilio: "map lower_char ''twilio'' = ''twilio''"
  by (simp add: lower_char_def)

lemma handler_ingestion_outcome:
  assumes "is_twilio_request (headers req)"
  shows "fst (handler lib cfg env req d) \<noteq>
         Replied \<lparr>content_type = Some ''application/json'', statusCode = 200\<rparr>
           (JObj [(''error'', JStr ''Not Authenticated.'')])"
proof (cases "list_all storable (request_values req)")
  case True
  show ?thesis by (simp add: handler_complete [OF True])
next
  case False
  from handler_incomplete [OF assms False, of lib cfg env d] show ?thesis by auto
qed

section \<open>Properties of the identity hash\<close>

text \<open>
  Claim C1, as amended. The identity hash that a request is stored under is a function of
  the signature, the idempotency token, the message id and the salt of the call, and of
  nothing else: two requests with the same three values, handled with whatever clock,
  database and other fields, get the same identity hash exactly when the two calls of
  \<^verbatim>\<open>argon2.hash\<close> drew the same salt.
\<close>

theorem identity_hash_of_triple_and_salt:
  assumes "list_all storable (request_values req1)"
    and "list_all storable (request_values req2)"
    and "header (headers req1) ''x-twilio-signature'' = header (headers req2) ''x-twilio-signature''"
    and "header (headers req1) ''i-twilio-idempotency-token'' =
         header (headers req2) ''i-twilio-idempotency-token''"
    and "field (body req1) ''SmsMessageSid'' = field (body req2) ''SmsMessageSid''"
  shows "hash_id (last (sms (snd (handler lib cfg env1 req1 d1)))) =
         hash_id (last (sms (snd (handler lib cfg env2 req2 d2))))
         \<longleftrightarrow> salt env1 = salt env2"
  using assms(3-5)
  by (simp add: hash_of_complete [OF assms(1)] hash_of_complete [OF assms(2)]
      request_context_def derive_def argon2_hash_def)

theorem identity_hash_of_triple_and_salt_witness:
  "list_all storable (request_values (example_request ''abc''))
   \<and> salt (example_environment first_salt) \<noteq> salt (example_environment second_salt)
   \<and> hash_id (last (sms (snd (handler example_library example_config
         (example_environment first_salt) (example_request ''abc'') empty_database)))) \<noteq>
       hash_id (last (sms (snd (handler example_library example_config
         (example_environment second_salt) (example_request ''abc'') empty_database))))"
proof -
  have v: "list_all storable (request_values (example_request ''abc''))"
    by (rule example_request_values)
  have s: "salt (example_environment first_salt) \<noteq> salt (example_environment second_salt)"
    using salts_differ by (simp add: example_environment_def)
  from identity_hash_of_triple_and_salt [OF v v refl refl refl,
      where lib = example_library and cfg = example_config
        and ?env1.0 = "example_environment first_salt" and ?d1.0 = empty_database
        and ?env2.0 = "example_environment second_salt" and ?d2.0 = empty_database] v s
  show ?thesis by simp
qed

text \<open>
  Claim C1 as it is stated fails: the same signature, token and message id give two
  identity hashes in two invocations, since each invocation draws its own salt.
\<close>

theorem identity_hash_differs_between_invocations:
  "derive first_salt ''U9rrr30/EZxI1IMkEHAl+ruEhTk='' ''6a1f'' ''SM123'' \<noteq>
   derive second_salt ''U9rrr30/EZxI1IMkEHAl+ruEhTk='' ''6a1f'' ''SM123''
   \<and> requestUID (request_context example_library example_config
         (example_environment first_salt) (example_request ''U9rrr30/EZxI1IMkEHAl+ruEhTk='')) \<noteq>
       requestUID (request_context example_library example_config
         (example_environment second_salt) (example_request ''U9rrr30/EZxI1IMkEHAl+ruEhTk=''))"
  using salts_differ
  by (simp add: derive_def argon2_hash_def request_context_def example_environment_def)




text \<open>
  Claim C8, as amended. Two distinct triples whose signatures and tokens contain no
  \<^verbatim>\<open>#\<close> have distinct preimages.
\<close>

theorem preimage_unambiguous_without_hash_sign:
  assumes "CHR ''#'' \<notin> set s1" and "CHR ''#'' \<notin> set s2"
    and "CHR ''#'' \<notin> set i1" and "CHR ''#'' \<notin> set i2"
    and "(s1, i1, m1) \<noteq> (s2, i2, m2)"
  shows "preimage s1 i1 m1 \<noteq> preimage s2 i2 m2"
proof
  assume eq: "preimage s1 i1 m1 = preimage s2 i2 m2"
  then have "s1 @ CHR ''#'' # (''##'' @ i1 @ ''###'' @ m1) =
             s2 @ CHR ''#'' # (''##'' @ i2 @ ''###'' @ m2)"
    by (simp add: preimage_def)
  from split_at_hash [OF assms(1,2) this]
  have s: "s1 = s2" and "i1 @ CHR ''#'' # (''##'' @ m1) = i2 @ CHR ''#'' # (''##'' @ m2)"
    by simp_all
  from split_at_hash [OF assms(3,4) this(2)] have "i1 = i2" and "m1 = m2" by simp_all
  with s assms(5) show False by simp
qed

theorem preimage_unambiguous_without_hash_sign_witness:
  "CHR ''#'' \<notin> set ''abc'' \<and> CHR ''#'' \<notin> set ''abd'' \<and> CHR ''#'' \<notin> set ''6a1f''
   \<and> (''abc'', ''6a1f'', ''SM123'') \<noteq> (''abd'', ''6a1f'', ''SM123'')
   \<and> preimage ''abc'' ''6a1f'' ''SM123'' \<noteq> preimage ''abd'' ''6a1f'' ''SM123''"
proof -
  have 1: "CHR ''#'' \<notin> set ''abc''" and 2: "CHR ''#'' \<notin> set ''abd''"
    and 3: "CHR ''#'' \<notin> set ''6a1f''"
    and 4: "(''abc'', ''6a1f'', ''SM123'') \<noteq> (''abd'', ''6a1f'', ''SM123'')"
    by simp_all
  from preimage_unambiguous_without_hash_sign [OF 1 2 3 3 4] 1 2 3 4 show ?thesis by blast
qed

text \<open>
  Claim C8 as it is stated fails: nothing keeps \<^verbatim>\<open>#\<close> out of a header value, and two
  distinct triples, none of whose parts contains the separator \<^verbatim>\<open>###\<close>, have the same
  preimage.
\<close>

theorem preimage_ambiguous:
  "(''a#'', ''b'', ''c'') \<noteq> (''a'', ''#b'', ''c'')
   \<and> \<not> sublist ''###'' ''a#'' \<and> \<not> sublist ''###'' ''b'' \<and> \<not> sublist ''###'' ''c''
   \<and> \<not> sublist ''###'' ''a'' \<and> \<not> sublist ''###'' ''#b''
   \<and> preimage ''a#'' ''b'' ''c'' = preimage ''a'' ''#b'' ''c''"
  by (simp add: preimage_def sublist_code prefix_code)

section \<open>Properties of the two inserts\<close>

text \<open>
  Claim C2. The two inserts are one transaction: \<^verbatim>\<open>insertSMS\<close> either appends the audit
  row and the message row, or throws and leaves the database as it was. In particular,
  when the insert into \<^verbatim>\<open>twilio_messages\<close> has run and the insert into \<^verbatim>\<open>sms\<close> fails,
  the function between BEGIN and COMMIT has appended the audit row, and after
  \<^verbatim>\<open>insertSMS\<close> neither row is there.
\<close>

theorem insertSMS_is_atomic:
  "(insertSMS lib t d =
      (Inr (), d\<lparr>twilio_messages := twilio_messages d @ [audit_row lib t],
                  sms := sms d @ [message_row t]\<rparr>)
    \<or> (\<exists>e. insertSMS lib t d = (Inl e, d)))
   \<and> (\<forall>d1 e.
        twilioRequestInsertStatement_run
          (JNum (receivedOn t)) (TwilioSignature t) (TwilioIdempotencyToken t)
          (field (requestBody t) ''SmsMessageSid'') (field (requestBody t) ''AccountSid'')
          (field (requestBody t) ''ApiVersion'') (JStr (webhookEndpoint t))
          (JNum (unary_plus (isAuthenticTwilioResponse t))) (JStr (JSON_stringify lib t)) d
          = Inr d1
        \<and> smsInsertStatement_run (requestUID t) (field (requestBody t) ''From'')
            (field (requestBody t) ''To'') (field (requestBody t) ''Body'')
            (JNum (receivedOn t)) d1 = Inl e
        \<longrightarrow> twilio_messages d1 = twilio_messages d @ [audit_row lib t]
            \<and> insertSMS_body lib t d = (Inl e, d1)
            \<and> insertSMS lib t d = (Inl e, d))"
proof (intro conjI allI impI)
  show "insertSMS lib t d =
      (Inr (), d\<lparr>twilio_messages := twilio_messages d @ [audit_row lib t],
                  sms := sms d @ [message_row t]\<rparr>)
    \<or> (\<exists>e. insertSMS lib t d = (Inl e, d))"
    using insertSMS_ok [of t lib d] insertSMS_fails [of t lib d]
    by (cases "list_all storable (stored_values t)") (auto simp: written_def)
next
  fix d1 e
  assume h: "twilioRequestInsertStatement_run
          (JNum (receivedOn t)) (TwilioSignature t) (TwilioIdempotencyToken t)
          (field (requestBody t) ''SmsMessageSid'') (field (requestBody t) ''AccountSid'')
          (field (requestBody t) ''ApiVersion'') (JStr (webhookEndpoint t))
          (JNum (unary_plus (isAuthenticTwilioResponse t))) (JStr (JSON_stringify lib t)) d
          = Inr d1
        \<and> smsInsertStatement_run (requestUID t) (field (requestBody t) ''From'')
            (field (requestBody t) ''To'') (field (requestBody t) ''Body'')
            (JNum (receivedOn t)) d1 = Inl e"
  from h have "storable (field (requestBody t) ''SmsMessageSid'')"
    by (auto simp: twilioRequestInsertStatement_run_def run_checks_None
        split: option.splits)
  then obtain sid where sid: "get_prop (requestBody t) ''SmsMessageSid'' = Inr sid"
    using get_prop_storable by blast
  have f: "field (requestBody t) ''SmsMessageSid'' = sid"
    using sid by (rule get_prop_field)
  show "twilio_messages d1 = twilio_messages d @ [audit_row lib t]"
    using h by (auto simp: twilioRequestInsertStatement_run_def audit_row_def
        split: option.splits)
  show b: "insertSMS_body lib t d = (Inl e, d1)"
    using h sid by (simp add: insertSMS_body_def f)
  show "insertSMS lib t d = (Inl e, d)"
    unfolding insertSMS_def using b by (rule transaction_rolls_back)
qed

theorem insertSMS_is_atomic_witness:
  "insertSMS_body example_library
     (example_context (JObj [(''SmsMessageSid'', JStr ''SM123''), (''AccountSid'', JStr ''AC1''),
        (''ApiVersion'', JStr ''2010-04-01'')])) empty_database =
     (Inl SqliteError,
      \<lparr>twilio_messages =
          [audit_row example_library
             (example_context (JObj [(''SmsMessageSid'', JStr ''SM123''),
                (''AccountSid'', JStr ''AC1''), (''ApiVersion'', JStr ''2010-04-01'')]))],
        sms = []\<rparr>)
   \<and> insertSMS example_library
     (example_context (JObj [(''SmsMessageSid'', JStr ''SM123''), (''AccountSid'', JStr ''AC1''),
        (''ApiVersion'', JStr ''2010-04-01'')])) empty_database =
     (Inl SqliteError, empty_database)"
proof -
  let ?t = "example_context (JObj [(''SmsMessageSid'', JStr ''SM123''),
     (''AccountSid'', JStr ''AC1''), (''ApiVersion'', JStr ''2010-04-01'')])"
  let ?d1 = "\<lparr>twilio_messages = [audit_row example_library ?t], sms = []\<rparr>"
  have 1: "twilioRequestInsertStatement_run
          (JNum (receivedOn ?t)) (TwilioSignature ?t) (TwilioIdempotencyToken ?t)
          (field (requestBody ?t) ''SmsMessageSid'') (field (requestBody ?t) ''AccountSid'')
          (field (requestBody ?t) ''ApiVersion'') (JStr (webhookEndpoint ?t))
          (JNum (unary_plus (isAuthenticTwilioResponse ?t)))
          (JStr (JSON_stringify example_library ?t)) empty_database = Inr ?d1"
    by (simp add: twilioRequestInsertStatement_run_def run_checks_def example_context_def
        request_context_def example_request_def header_def field_def empty_database_def
        audit_row_def)
  have 2: "smsInsertStatement_run (requestUID ?t) (field (requestBody ?t) ''From'')
            (field (requestBody ?t) ''To'') (field (requestBody ?t) ''Body'')
            (JNum (receivedOn ?t)) ?d1 = Inl SqliteError"
    by (simp add: smsInsertStatement_run_def run_checks_def example_context_def
        request_context_def field_def)
  from insertSMS_is_atomic [of example_library ?t empty_database] 1 2
  show ?thesis by blast
qed

section \<open>Properties of the handler\<close>

text \<open>
  Claim C4, as amended. For a request with a provider header: when the two provider
  header values and the six fields of the body are all there as strings or numbers, the
  handler writes exactly one audit row and exactly one message row, whatever the
  verdict, and the audit row's \<^verbatim>\<open>is_authentic_request\<close> is 1 for a true verdict and 0 for
  a false one; when one of the eight is missing or of another kind, the handler throws
  and writes no row.
\<close>

theorem one_row_each_when_values_present:
  assumes "is_twilio_request (headers req)"
  shows "if list_all storable (request_values req)
         then \<exists>r p a m.
                handler lib cfg env req d =
                  (Replied r p, d\<lparr>twilio_messages := twilio_messages d @ [a],
                                  sms := sms d @ [m]\<rparr>)
                \<and> is_authentic_request a =
                    JNum (if validateRequest lib (TWILIO_AUTH_TOKEN cfg)
                               (header (headers req) ''x-twilio-signature'')
                               (WEBHOOK_ENDPOINT cfg) (body req)
                          then 1 else 0)
         else \<exists>e. handler lib cfg env req d = (Threw e, d)"
proof (cases "list_all storable (request_values req)")
  case True
  let ?t = "request_context lib cfg env req"
  obtain r p where out: "handler lib cfg env req d = (Replied r p, written lib ?t d)"
    using handler_complete [OF True, of lib cfg env d] by (simp split: if_splits)
  have a: "is_authentic_request (audit_row lib ?t) =
      JNum (if validateRequest lib (TWILIO_AUTH_TOKEN cfg)
                 (header (headers req) ''x-twilio-signature'')
                 (WEBHOOK_ENDPOINT cfg) (body req)
            then 1 else 0)"
    by (simp add: audit_row_def unary_plus_def request_context_def)
  have "\<exists>r p a m.
          handler lib cfg env req d =
            (Replied r p, d\<lparr>twilio_messages := twilio_messages d @ [a],
                            sms := sms d @ [m]\<rparr>)
          \<and> is_authentic_request a =
              JNum (if validateRequest lib (TWILIO_AUTH_TOKEN cfg)
                         (header (headers req) ''x-twilio-signature'')
                         (WEBHOOK_ENDPOINT cfg) (body req)
                    then 1 else 0)"
    using out a unfolding written_def by blast
  with True show ?thesis by simp
next
  case False
  with handler_incomplete [OF assms False] show ?thesis by simp
qed

theorem one_row_each_when_values_present_witness:
  "is_twilio_request (headers (example_request ''forged''))
   \<and> (\<exists>r p a m.
        handler example_library example_config (example_environment first_salt)
          (example_request ''forged'') empty_database =
          (Replied r p, \<lparr>twilio_messages = [a], sms = [m]\<rparr>)
        \<and> is_authentic_request a = JNum 0)"
proof -
  have v: "\<not> validateRequest example_library (TWILIO_AUTH_TOKEN example_config)
             (header (headers (example_request ''forged'')) ''x-twilio-signature'')
             (WEBHOOK_ENDPOINT example_config) (body (example_request ''forged''))"
    using example_verdict [of "''forged''"] by simp
  from one_row_each_when_values_present [OF example_is_twilio,
      of "''forged''" example_library example_config "example_environment first_salt"
         empty_database]
    example_request_values [of "''forged''"] v example_is_twilio [of "''forged''"]
  show ?thesis by (simp add: empty_database_def)
qed

text \<open>
  Claim C4 as it is stated fails: a request with the signature header and no idempotency
  token carries a provider header, and the handler writes no row for it.
\<close>

theorem provider_header_without_token_writes_nothing:
  "is_twilio_request [(''x-twilio-signature'', ''forged'')]
   \<and> handler example_library example_config (example_environment first_salt)
       \<lparr>headers = [(''x-twilio-signature'', ''forged'')], body = example_body\<rparr>
       empty_database = (Threw SqliteError, empty_database)"
  by (simp add: is_twilio_request_def indexOf_def truthy_number_def handler_def Let_def
      example_body_def request_context_def insertSMS_def transaction_def insertSMS_body_def
      twilioRequestInsertStatement_run_def run_checks_def header_def field_def)

text \<open>
  Claim C5. A request none of whose header keys contains \<^verbatim>\<open>twilio\<close> leaves both tables
  as they were, whatever its body, and is answered with the JSON object
  \<^verbatim>\<open>{error: 'Not Authenticated.'}\<close> at the status a new reply has, which is 200.
\<close>

theorem no_provider_header_no_write:
  assumes "\<forall>k \<in> set (map fst (headers req)). \<not> sublist ''twilio'' k"
  shows "handler lib cfg env req d =
           (Replied \<lparr>content_type = Some ''application/json'', statusCode = statusCode new_reply\<rparr>
              (JObj [(''error'', JStr ''Not Authenticated.'')]), d)
         \<and> statusCode new_reply = 200"
proof -
  from assms have "\<not> is_twilio_request (headers req)"
    unfolding is_twilio_request_iff by blast
  then show ?thesis
    by (simp add: handler_no_header reply_type_def new_reply_def)
qed

theorem no_provider_header_no_write_witness:
  "handler example_library example_config (example_environment first_salt)
     \<lparr>headers = [(''content-type'', ''application/json''), (''host'', ''example.org'')],
      body = example_body\<rparr>
     \<lparr>twilio_messages = [], sms = []\<rparr> =
     (Replied \<lparr>content_type = Some ''application/json'', statusCode = 200\<rparr>
        (JObj [(''error'', JStr ''Not Authenticated.'')]), \<lparr>twilio_messages = [], sms = []\<rparr>)"
proof -
  have h: "\<forall>k \<in> set (map fst (headers
      \<lparr>headers = [(''content-type'', ''application/json''), (''host'', ''example.org'')],
       body = example_body\<rparr>)). \<not> sublist ''twilio'' k"
    by (simp add: sublist_code prefix_code)
  from no_provider_header_no_write [OF h] show ?thesis by simp
qed

text \<open>
  Claim C6, as amended. For a request with a provider header whose eight values are there
  as strings or numbers, so that the write succeeds, the handler answers a true verdict
  with status 200, content type \<^verbatim>\<open>text/html\<close> and the body \<^verbatim>\<open><Response></Response>\<close>, and
  a false verdict with status 400 and the JSON object
  \<^verbatim>\<open>{error: 'Invalid Twilio request found.'}\<close>; otherwise the handler throws and gives
  neither answer.
\<close>

theorem response_follows_verdict_when_written:
  assumes "is_twilio_request (headers req)"
  shows "if list_all storable (request_values req)
         then fst (handler lib cfg env req d) =
                (if validateRequest lib (TWILIO_AUTH_TOKEN cfg)
                      (header (headers req) ''x-twilio-signature'')
                      (WEBHOOK_ENDPOINT cfg) (body req)
                 then Replied \<lparr>content_type = Some ''text/html'', statusCode = 200\<rparr>
                        (JStr ''<Response></Response>'')
                 else Replied \<lparr>content_type = Some ''application/json'', statusCode = 400\<rparr>
                        (JObj [(''error'', JStr ''Invalid Twilio request found.'')]))
         else \<exists>e. fst (handler lib cfg env req d) = Threw e"
proof (cases "list_all storable (request_values req)")
  case True
  show ?thesis
    using True by (simp add: handler_complete [OF True] request_context_def)
next
  case False
  from handler_incomplete [OF assms False, of lib cfg env d] obtain e
    where "handler lib cfg env req d = (Threw e, d)" by blast
  with False show ?thesis by simp
qed

theorem response_follows_verdict_when_written_witness:
  "is_twilio_request (headers (example_request ''U9rrr30/EZxI1IMkEHAl+ruEhTk=''))
   \<and> fst (handler example_library example_config (example_environment first_salt)
       (example_request ''U9rrr30/EZxI1IMkEHAl+ruEhTk='') empty_database) =
     Replied \<lparr>content_type = Some ''text/html'', statusCode = 200\<rparr>
       (JStr ''<Response></Response>'')"
proof -
  have v: "validateRequest example_library (TWILIO_AUTH_TOKEN example_config)
      (header (headers (example_request ''U9rrr30/EZxI1IMkEHAl+ruEhTk='')) ''x-twilio-signature'')
      (WEBHOOK_ENDPOINT example_config) (body (example_request ''U9rrr30/EZxI1IMkEHAl+ruEhTk=''))"
    using example_verdict [of "''U9rrr30/EZxI1IMkEHAl+ruEhTk=''"] by simp
  from response_follows_verdict_when_written [OF example_is_twilio,
      of "''U9rrr30/EZxI1IMkEHAl+ruEhTk=''" example_library example_config
         "example_environment first_salt" empty_database]
    example_request_values [of "''U9rrr30/EZxI1IMkEHAl+ruEhTk=''"] v
    example_is_twilio [of "''U9rrr30/EZxI1IMkEHAl+ruEhTk=''"]
  show ?thesis by simp
qed

text \<open>
  Claim C6 as it is stated fails: a request with an accepted signature whose body has no
  \<^verbatim>\<open>Body\<close> field is on the ingestion path with a true verdict, and the handler throws
  instead of answering 200.
\<close>

theorem authentic_request_without_body_field_is_not_acknowledged:
  "is_twilio_request
     [(''x-twilio-signature'', ''Eqm87rynKh3dF8p83uy7N7MzVBQ=''),
      (''i-twilio-idempotency-token'', ''6a1f'')]
   \<and> validateRequest example_library (TWILIO_AUTH_TOKEN example_config)
       (JStr ''Eqm87rynKh3dF8p83uy7N7MzVBQ='') (WEBHOOK_ENDPOINT example_config)
       (JObj [(''SmsMessageSid'', JStr ''SM123''), (''AccountSid'', JStr ''AC1''),
              (''ApiVersion'', JStr ''2010-04-01''), (''From'', JStr ''+15551234567''),
              (''To'', JStr ''+15557654321'')])
   \<and> handler example_library example_config (example_environment first_salt)
       \<lparr>headers = [(''x-twilio-signature'', ''Eqm87rynKh3dF8p83uy7N7MzVBQ=''),
                   (''i-twilio-idempotency-token'', ''6a1f'')],
        body = JObj [(''SmsMessageSid'', JStr ''SM123''), (''AccountSid'', JStr ''AC1''),
              (''ApiVersion'', JStr ''2010-04-01''), (''From'', JStr ''+15551234567''),
              (''To'', JStr ''+15557654321'')]\<rparr>
       empty_database = (Threw SqliteError, empty_database)"
  by (simp add: is_twilio_request_def indexOf_def truthy_number_def handler_def Let_def
      request_context_def insertSMS_def transaction_def insertSMS_body_def
      twilioRequestInsertStatement_run_def smsInsertStatement_run_def run_checks_def
      header_def field_def example_library_def provider_validateRequest_def
      example_expected_def example_forms_def example_config_def example_body_def
      example_body_without_Body_def)

text \<open>
  Claim C7. Two requests with the same signature, idempotency token and message fields,
  handled one after the other, are both stored: the handler answers both, no error is
  raised, and the tables end with two audit rows and two message rows that agree on
  these values. The answer to the second request is the one it would get had the first
  not been stored.
\<close>

theorem replayed_request_is_stored_again:
  assumes "list_all storable (request_values req1)"
    and "request_values req2 = request_values req1"
  shows "\<exists>r1 p1 r2 p2 a1 a2 m1 m2 d1 d2.
           handler lib cfg env1 req1 d = (Replied r1 p1, d1)
         \<and> handler lib cfg env2 req2 d1 = (Replied r2 p2, d2)
         \<and> twilio_messages d2 = twilio_messages d @ [a1, a2]
         \<and> sms d2 = sms d @ [m1, m2]
         \<and> twilio_signature a2 = twilio_signature a1
         \<and> twilio_idempotency_token a2 = twilio_idempotency_token a1
         \<and> twilio_sms_message_sid a2 = twilio_sms_message_sid a1
         \<and> twilio_account_sid a2 = twilio_account_sid a1
         \<and> twilio_api_version a2 = twilio_api_version a1
         \<and> sender m2 = sender m1 \<and> receiver m2 = receiver m1 \<and> sms_body m2 = sms_body m1
         \<and> fst (handler lib cfg env2 req2 d1) = fst (handler lib cfg env2 req2 d)"
proof -
  let ?t1 = "request_context lib cfg env1 req1"
  let ?t2 = "request_context lib cfg env2 req2"
  let ?d1 = "written lib ?t1 d"
  let ?d2 = "written lib ?t2 ?d1"
  from assms have c2: "list_all storable (request_values req2)" by simp
  obtain r1 p1 where h1: "handler lib cfg env1 req1 d = (Replied r1 p1, ?d1)"
    using handler_complete [OF assms(1), of lib cfg env1 d] by (simp split: if_splits)
  obtain r2 p2 where h2: "handler lib cfg env2 req2 ?d1 = (Replied r2 p2, ?d2)"
    using handler_complete [OF c2, of lib cfg env2 ?d1] by (simp split: if_splits)
  have v: "stored_values ?t2 = stored_values ?t1"
    using assms(2) by (simp add: stored_values_context)
  have rows: "twilio_messages ?d2 = twilio_messages d @ [audit_row lib ?t1, audit_row lib ?t2]"
    "sms ?d2 = sms d @ [message_row ?t1, message_row ?t2]"
    by (simp_all add: written_def)
  have same: "twilio_signature (audit_row lib ?t2) = twilio_signature (audit_row lib ?t1)"
    "twilio_idempotency_token (audit_row lib ?t2) = twilio_idempotency_token (audit_row lib ?t1)"
    "twilio_sms_message_sid (audit_row lib ?t2) = twilio_sms_message_sid (audit_row lib ?t1)"
    "twilio_account_sid (audit_row lib ?t2) = twilio_account_sid (audit_row lib ?t1)"
    "twilio_api_version (audit_row lib ?t2) = twilio_api_version (audit_row lib ?t1)"
    "sender (message_row ?t2) = sender (message_row ?t1)"
    "receiver (message_row ?t2) = receiver (message_row ?t1)"
    "sms_body (message_row ?t2) = sms_body (message_row ?t1)"
    using v by (simp_all add: audit_row_def message_row_def stored_values_def)
  have "fst (handler lib cfg env2 req2 ?d1) = fst (handler lib cfg env2 req2 d)"
    by (rule handler_outcome_independent)
  with h1 h2 rows same show ?thesis by blast
qed

theorem replayed_request_is_stored_again_witness:
  "list_all storable (request_values (example_request ''abc''))
   \<and> (\<exists>r1 p1 r2 p2 a1 a2 m1 m2 d1.
         handler example_library example_config (example_environment first_salt)
           (example_request ''abc'') empty_database = (Replied r1 p1, d1)
       \<and> handler example_library example_config (example_environment second_salt)
           (example_request ''abc'') d1 =
           (Replied r2 p2, \<lparr>twilio_messages = [a1, a2], sms = [m1, m2]\<rparr>)
       \<and> twilio_signature a2 = twilio_signature a1
       \<and> twilio_idempotency_token a2 = twilio_idempotency_token a1
       \<and> twilio_sms_message_sid a2 = twilio_sms_message_sid a1)"
proof -
  from replayed_request_is_stored_again [OF example_request_values [of "''abc''"] refl,
      where lib = example_library and cfg = example_config
        and ?env1.0 = "example_environment first_salt" and d = empty_database
        and ?env2.0 = "example_environment second_salt"]
  obtain r1 p1 r2 p2 a1 a2 m1 m2 d1 d2 where
    h: "handler example_library example_config (example_environment first_salt)
           (example_request ''abc'') empty_database = (Replied r1 p1, d1)"
      "handler example_library example_config (example_environment second_salt)
           (example_request ''abc'') d1 = (Replied r2 p2, d2)"
      "twilio_messages d2 = twilio_messages empty_database @ [a1, a2]"
      "sms d2 = sms empty_database @ [m1, m2]"
      "twilio_signature a2 = twilio_signature a1"
      "twilio_idempotency_token a2 = twilio_idempotency_token a1"
      "twilio_sms_message_sid a2 = twilio_sms_message_sid a1"
    by blast
  from h(3,4) have "d2 = \<lparr>twilio_messages = [a1, a2], sms = [m1, m2]\<rparr>"
    by (cases d2) (simp add: empty_database_def)
  with h example_request_values [of "''abc''"] show ?thesis by blast
qed

text \<open>
  Claim C9. The header keys reach the handler in lower case, as the HTTP layer delivers
  them. For such a request the handler takes the ingestion path if and only if some header
  key contains the fragment \<^verbatim>\<open>twilio\<close> when case is ignored; otherwise it takes the path
  of the generic rejection, and answers with it. (The handler itself compares the
  characters as they are; the case is folded before the keys reach it.)
\<close>

theorem ingestion_iff_key_contains_fragment:
  assumes "\<forall>k \<in> set (map fst (headers req)). map lower_char k = k"
  shows "(is_twilio_request (headers req) \<longleftrightarrow>
            (\<exists>k \<in> set (map fst (headers req)). contains_ignoring_case ''twilio'' k))
       \<and> (handler lib cfg env req d =
            (Replied \<lparr>content_type = Some ''application/json'', statusCode = 200\<rparr>
               (JObj [(''error'', JStr ''Not Authenticated.'')]), d)
          \<longleftrightarrow> \<not> (\<exists>k \<in> set (map fst (headers req)). contains_ignoring_case ''twilio'' k))"
proof (intro conjI)
  show 1: "is_twilio_request (headers req) \<longleftrightarrow>
      (\<exists>k \<in> set (map fst (headers req)). contains_ignoring_case ''twilio'' k)"
    using assms
    unfolding is_twilio_request_iff contains_ignoring_case_def lower_twilio by auto
  show "handler lib cfg env req d =
        (Replied \<lparr>content_type = Some ''application/json'', statusCode = 200\<rparr>
           (JObj [(''error'', JStr ''Not Authenticated.'')]), d)
      \<longleftrightarrow> \<not> (\<exists>k \<in> set (map fst (headers req)). contains_ignoring_case ''twilio'' k)"
  proof (cases "is_twilio_request (headers req)")
    case True
    from handler_ingestion_outcome [OF True, of lib cfg env d] True 1 show ?thesis by auto
  next
    case False
    with 1 show ?thesis
      by (simp add: handler_no_header reply_type_def new_reply_def)
  qed
qed

theorem ingestion_iff_key_contains_fragment_witness:
  "list_all (\<lambda>k. map lower_char k = k) (map fst (headers (example_request ''abc'')))
   \<and> is_twilio_request (headers (example_request ''abc''))
   \<and> (\<exists>k \<in> set (map fst (headers (example_request ''abc''))).
         contains_ignoring_case ''twilio'' k)
   \<and> handler example_library example_config (example_environment first_salt)
        (example_request ''abc'') empty_database \<noteq>
        (Replied \<lparr>content_type = Some ''application/json'', statusCode = 200\<rparr>
           (JObj [(''error'', JStr ''Not Authenticated.'')]), empty_database)"
proof -
  have l: "\<forall>k \<in> set (map fst (headers (example_request ''abc''))). map lower_char k = k"
    by (simp add: example_request_def lower_char_def)
  from ingestion_iff_key_contains_fragment [OF l, of example_library
      example_config "example_environment first_salt" empty_database]
    l example_is_twilio [of "''abc''"]
  show ?thesis unfolding list_all_iff by blast
qed

text \<open>
  Claim C10. When a request is stored, the \<^verbatim>\<open>raw_request\<close> of its audit row is
  \<^verbatim>\<open>JSON.stringify\<close> of the request context with all seven properties assigned: the
  verdict, which is also what \<^verbatim>\<open>is_authentic_request\<close> stores, and the identity hash,
  which is also the \<^verbatim>\<open>hash_id\<close> of the message row, beside the two header values, the
  body, the webhook endpoint and the time of arrival.
\<close>

theorem raw_request_is_final_context:
  assumes "handler lib cfg env req d = (out, d')" and "d' \<noteq> d"
  shows "\<exists>t a m.
           twilio_messages d' = twilio_messages d @ [a] \<and> sms d' = sms d @ [m]
         \<and> raw_request a = JStr (JSON_stringify lib t)
         \<and> isAuthenticTwilioResponse t =
             validateRequest lib (TWILIO_AUTH_TOKEN cfg)
               (header (headers req) ''x-twilio-signature'') (WEBHOOK_ENDPOINT cfg) (body req)
         \<and> is_authentic_request a = JNum (if isAuthenticTwilioResponse t then 1 else 0)
         \<and> requestUID t =
             derive (salt env)
               (ToString (Number_toString lib) (header (headers req) ''x-twilio-signature''))
               (ToString (Number_toString lib)
                  (header (headers req) ''i-twilio-idempotency-token''))
               (ToString (Number_toString lib) (field (body req) ''SmsMessageSid''))
         \<and> hash_id m = requestUID t
         \<and> TwilioSignature t = header (headers req) ''x-twilio-signature''
         \<and> TwilioIdempotencyToken t = header (headers req) ''i-twilio-idempotency-token''
         \<and> requestBody t = body req
         \<and> webhookEndpoint t = WEBHOOK_ENDPOINT cfg
         \<and> receivedOn t = now env"
proof -
  let ?t = "request_context lib cfg env req"
  have tw: "is_twilio_request (headers req)"
  proof (rule ccontr)
    assume "\<not> is_twilio_request (headers req)"
    with assms show False by (simp add: handler_no_header)
  qed
  have c: "list_all storable (request_values req)"
  proof (rule ccontr)
    assume "\<not> list_all storable (request_values req)"
    from handler_incomplete [OF tw this, of lib cfg env d] assms show False by auto
  qed
  from handler_complete [OF c, of lib cfg env d] assms(1)
  have d': "d' = written lib ?t d" by simp
  have "twilio_messages d' = twilio_messages d @ [audit_row lib ?t]"
    "sms d' = sms d @ [message_row ?t]"
    "raw_request (audit_row lib ?t) = JStr (JSON_stringify lib ?t)"
    "is_authentic_request (audit_row lib ?t) =
       JNum (if isAuthenticTwilioResponse ?t then 1 else 0)"
    "hash_id (message_row ?t) = requestUID ?t"
    by (simp_all add: d' written_def audit_row_def message_row_def unary_plus_def)
  moreover have "isAuthenticTwilioResponse ?t =
             validateRequest lib (TWILIO_AUTH_TOKEN cfg)
               (header (headers req) ''x-twilio-signature'') (WEBHOOK_ENDPOINT cfg) (body req)"
    "requestUID ?t =
             derive (salt env)
               (ToString (Number_toString lib) (header (headers req) ''x-twilio-signature''))
               (ToString (Number_toString lib)
                  (header (headers req) ''i-twilio-idempotency-token''))
               (ToString (Number_toString lib) (field (body req) ''SmsMessageSid''))"
    "TwilioSignature ?t = header (headers req) ''x-twilio-signature''"
    "TwilioIdempotencyToken ?t = header (headers req) ''i-twilio-idempotency-token''"
    "requestBody ?t = body req"
    "webhookEndpoint ?t = WEBHOOK_ENDPOINT cfg"
    "receivedOn ?t = now env"
    by (simp_all add: request_context_def)
  ultimately show ?thesis by blast
qed

theorem raw_request_is_final_context_witness:
  "written example_library
      (request_context example_library example_config (example_environment first_salt)
         (example_request ''U9rrr30/EZxI1IMkEHAl+ruEhTk='')) empty_database \<noteq> empty_database
   \<and> (\<exists>t a m.
        twilio_messages (snd (handler example_library example_config
           (example_environment first_salt) (example_request ''U9rrr30/EZxI1IMkEHAl+ruEhTk='')
           empty_database)) = [a]
      \<and> sms (snd (handler example_library example_config
           (example_environment first_salt) (example_request ''U9rrr30/EZxI1IMkEHAl+ruEhTk='')
           empty_database)) = [m]
      \<and> raw_request a = JStr (JSON_stringify example_library t)
      \<and> isAuthenticTwilioResponse t
      \<and> is_authentic_request a = JNum 1
      \<and> hash_id m = requestUID t
      \<and> requestUID t = derive first_salt ''U9rrr30/EZxI1IMkEHAl+ruEhTk='' ''6a1f'' ''SM123'')"
proof -
  let ?req = "example_request ''U9rrr30/EZxI1IMkEHAl+ruEhTk=''"
  let ?env = "example_environment first_salt"
  let ?d' = "written example_library
      (request_context example_library example_config ?env ?req) empty_database"
  have v: "validateRequest example_library (TWILIO_AUTH_TOKEN example_config)
      (header (headers ?req) ''x-twilio-signature'')
      (WEBHOOK_ENDPOINT example_config) (body ?req)"
    using example_verdict [of "''U9rrr30/EZxI1IMkEHAl+ruEhTk=''"] by simp
  have h: "handler example_library example_config ?env ?req empty_database =
      (Replied \<lparr>content_type = Some ''text/html'', statusCode = 200\<rparr>
             (JStr ''<Response></Response>''), ?d')"
    using handler_complete [OF example_request_values [of "''U9rrr30/EZxI1IMkEHAl+ruEhTk=''"],
        where lib = example_library and cfg = example_config and env = ?env
          and d = empty_database] v
    by (simp add: request_context_def)
  have ne: "?d' \<noteq> empty_database"
    by (simp add: written_def empty_database_def)
  have s: "ToString (Number_toString example_library) (header (headers ?req) ''x-twilio-signature'')
        = ''U9rrr30/EZxI1IMkEHAl+ruEhTk=''"
    "ToString (Number_toString example_library)
       (header (headers ?req) ''i-twilio-idempotency-token'') = ''6a1f''"
    "ToString (Number_toString example_library) (field (body ?req) ''SmsMessageSid'') = ''SM123''"
    "salt ?env = first_salt"
    by (simp_all add: example_request_def header_def field_def example_body_def
        example_environment_def)
  from raw_request_is_final_context [OF h ne] obtain t a m where
    f: "twilio_messages ?d' = twilio_messages empty_database @ [a]"
      "sms ?d' = sms empty_database @ [m]"
      "raw_request a = JStr (JSON_stringify example_library t)"
      "isAuthenticTwilioResponse t =
         validateRequest example_library (TWILIO_AUTH_TOKEN example_config)
           (header (headers ?req) ''x-twilio-signature'')
           (WEBHOOK_ENDPOINT example_config) (body ?req)"
      "is_authentic_request a = JNum (if isAuthenticTwilioResponse t then 1 else 0)"
      "requestUID t =
         derive (salt ?env)
           (ToString (Number_toString example_library)
              (header (headers ?req) ''x-twilio-signature''))
           (ToString (Number_toString example_library)
              (header (headers ?req) ''i-twilio-idempotency-token''))
           (ToString (Number_toString example_library) (field (body ?req) ''SmsMessageSid''))"
      "hash_id m = requestUID t"
    by blast
  have snd: "snd (handler example_library example_config ?env ?req empty_database) = ?d'"
    by (simp only: h snd_conv)
  have 1: "twilio_messages (snd (handler example_library example_config ?env ?req
      empty_database)) = [a]"
    "sms (snd (handler example_library example_config ?env ?req empty_database)) = [m]"
    using f(1,2) unfolding snd by (simp_all add: empty_database_def)
  have 2: "isAuthenticTwilioResponse t" using f(4) v by simp
  have 3: "is_authentic_request a = JNum 1" using f(5) 2 by simp
  have 4: "requestUID t = derive first_salt ''U9rrr30/EZxI1IMkEHAl+ruEhTk='' ''6a1f'' ''SM123''"
    using f(6) by (simp only: s)
  from ne 1 f(3) 2 3 f(7) 4 show ?thesis by blast
qed

end
